theory Spec2Isabelle
  imports Complex_Main
begin

section \<open>Kenwood TS-2000 driver (chirp/drivers/ts2000.py): command codec\<close>

text \<open>
  The development embeds the memory codec and the settings get/set verbs of
  \<^verbatim>\<open>TS2000Radio\<close>. Python exceptions are values of type \<open>error\<close>; a function that
  can raise returns \<open>error + 'a\<close> with \<open>Inl\<close> for the exception. Python integers are
  \<open>int\<close>, Python floats that only occur as table constants are \<open>rat\<close>, strings are
  \<open>string\<close> (characters with code points below 256).
\<close>

subsection \<open>Python primitives used by the driver\<close>

datatype error =
    IndexError
  | ValueError
  | KeyError
  | NameError string
  | RadioError string

definition Ebind :: "error + 'a \<Rightarrow> ('a \<Rightarrow> error + 'b) \<Rightarrow> error + 'b" where
  "Ebind m f = (case m of Inl e \<Rightarrow> Inl e | Inr x \<Rightarrow> f x)"

text \<open>\<^verbatim>\<open>s[i]\<close> for a constant index \<open>i \<ge> 0\<close>: raises IndexError beyond the end.\<close>

definition py_index :: "'a list \<Rightarrow> nat \<Rightarrow> error + 'a" where
  "py_index xs i = (if i < length xs then Inr (xs ! i) else Inl IndexError)"

text \<open>\<^verbatim>\<open>s[i:j]\<close> for constants \<open>0 \<le> i \<le> j\<close>: never raises, clips at the end.\<close>

definition py_slice :: "'a list \<Rightarrow> nat \<Rightarrow> nat \<Rightarrow> 'a list" where
  "py_slice xs i j = take (j - i) (drop i xs)"

text \<open>\<^verbatim>\<open>t[k]\<close> for a computed integer \<open>k\<close>: a negative index counts from the end.\<close>

definition py_getitem :: "'a list \<Rightarrow> int \<Rightarrow> error + 'a" where
  "py_getitem xs k =
     (if 0 \<le> k \<and> k < int (length xs) then Inr (xs ! nat k)
      else if k < 0 \<and> - k \<le> int (length xs) then Inr (xs ! nat (int (length xs) + k))
      else Inl IndexError)"

text \<open>\<^verbatim>\<open>t.index(v)\<close>: position of the first element equal to \<open>v\<close>, ValueError if none.\<close>

fun py_list_index :: "'a list \<Rightarrow> 'a \<Rightarrow> error + nat" where
  "py_list_index [] v = Inl ValueError"
| "py_list_index (x # xs) v =
     (if x = v then Inr 0 else Ebind (py_list_index xs v) (\<lambda>n. Inr (Suc n)))"

text \<open>\<^verbatim>\<open>d[k]\<close> on a dict literal, kept as an association list: KeyError if absent.\<close>

definition py_dict_get :: "('k \<times> 'v) list \<Rightarrow> 'k \<Rightarrow> error + 'v" where
  "py_dict_get d k = (case map_of d k of None \<Rightarrow> Inl KeyError | Some v \<Rightarrow> Inr v)"

text \<open>\<^verbatim>\<open>a in b\<close> on two strings: \<open>a\<close> occurs in \<open>b\<close> as a contiguous substring.\<close>

definition py_str_in :: "string \<Rightarrow> string \<Rightarrow> bool" where
  "py_str_in a b = list_ex (\<lambda>i. take (length a) (drop i b) = a) [0 ..< Suc (length b)]"

text \<open>Decimal rendering of a natural number, as \<^verbatim>\<open>str(n)\<close>.\<close>

definition digit_char :: "nat \<Rightarrow> char" where
  "digit_char d = char_of (48 + d)"

fun show_nat :: "nat \<Rightarrow> string" where
  "show_nat n = (if n < 10 then [digit_char n] else show_nat (n div 10) @ [digit_char (n mod 10)])"

declare show_nat.simps [simp del]

text \<open>
  \<^verbatim>\<open>"%0wi" % n\<close> (and \<^verbatim>\<open>"%i"\<close>, \<^verbatim>\<open>"%d"\<close> with \<open>w = 0\<close>): the sign, then the
  digits left-padded with zeros so that the whole field has at least \<open>w\<close> characters.
\<close>

definition py_fmt_int :: "nat \<Rightarrow> int \<Rightarrow> string" where
  "py_fmt_int w n =
     (if n < 0
      then CHR ''-'' # replicate (w - 1 - length (show_nat (nat (- n)))) CHR ''0'' @ show_nat (nat (- n))
      else replicate (w - length (show_nat (nat n))) CHR ''0'' @ show_nat (nat n))"

text \<open>
  \<^verbatim>\<open>int(s)\<close> on a string: surrounding whitespace is stripped, one sign is allowed,
  then decimal digits with single underscores between digits; anything else is a
  ValueError. The whitespace \<^verbatim>\<open>int\<close> strips is tab, line feed, vertical tab, form
  feed, carriage return and space, and of the code points from 128 to 255 the two
  Unicode spaces U+0085 and U+00A0; the separators U+001C to U+001F are whitespace for
  \<^verbatim>\<open>str.isspace\<close> but not for \<^verbatim>\<open>int\<close>. Decimal digits outside ASCII have no code
  point below 256.
\<close>

definition is_space :: "char \<Rightarrow> bool" where
  "is_space c = ((of_char c :: nat) \<in> {9, 10, 11, 12, 13, 32, 133, 160})"

definition is_digit :: "char \<Rightarrow> bool" where
  "is_digit c = (48 \<le> (of_char c :: nat) \<and> (of_char c :: nat) \<le> 57)"

definition digit_val :: "char \<Rightarrow> nat" where
  "digit_val c = of_char c - 48"

definition py_strip :: "string \<Rightarrow> string" where
  "py_strip s = rev (dropWhile is_space (rev (dropWhile is_space s)))"

fun py_digits :: "bool \<Rightarrow> nat \<Rightarrow> string \<Rightarrow> nat option" where
  "py_digits prev acc [] = (if prev then Some acc else None)"
| "py_digits prev acc (c # cs) =
     (if is_digit c then py_digits True (acc * 10 + digit_val c) cs
      else if c = CHR ''_'' \<and> prev then py_digits False acc cs
      else None)"

definition py_int :: "string \<Rightarrow> error + int" where
  "py_int s =
     (case py_strip s of
        [] \<Rightarrow> Inl ValueError
      | c # cs \<Rightarrow>
          (if c = CHR ''-'' then
             (case py_digits False 0 cs of None \<Rightarrow> Inl ValueError | Some n \<Rightarrow> Inr (- int n))
           else if c = CHR ''+'' then
             (case py_digits False 0 cs of None \<Rightarrow> Inl ValueError | Some n \<Rightarrow> Inr (int n))
           else
             (case py_digits False 0 (c # cs) of None \<Rightarrow> Inl ValueError | Some n \<Rightarrow> Inr (int n))))"

subsection \<open>Class constants of \<^verbatim>\<open>TS2000Radio\<close>\<close>

definition ARG_DELIMITER :: string where
  "ARG_DELIMITER = []"

definition CMD_DELIMITER :: string where
  "CMD_DELIMITER = '';''"

definition UPPER :: int where
  "UPPER = 289"

definition SPECIAL_CHANS :: "string list" where
  "SPECIAL_CHANS =
     [''290 Start'', ''290 End'', ''291 Start'', ''291 End'', ''292 Start'', ''292 End'',
      ''293 Start'', ''293 End'', ''294 Start'', ''294 End'', ''295 Start'', ''295 End'',
      ''296 Start'', ''296 End'', ''297 Start'', ''297 End'', ''298 Start'', ''298 End'',
      ''299 Start'', ''299 End'']"

subsection \<open>Settings verbs\<close>

text \<open>
  The transport (\<^verbatim>\<open>_command\<close>) and the priming step (\<^verbatim>\<open>_do_prerequisite\<close>) belong to
  the base class and the serial layer. What the driver does with them is recorded as a
  trace of calls; the response of the transport is a parameter \<open>respond\<close>, which sees
  the calls made so far and the command sent.
\<close>

datatype event =
    DoPrerequisite string bool bool
  | Command string

type_synonym transport = "event list \<Rightarrow> string \<Rightarrow> string"

definition command :: "transport \<Rightarrow> event list \<Rightarrow> string \<Rightarrow> string \<times> event list" where
  "command respond tr c = (respond tr c, tr @ [Command c])"

definition do_prerequisite :: "event list \<Rightarrow> string \<Rightarrow> bool \<Rightarrow> bool \<Rightarrow> event list" where
  "do_prerequisite tr c g e = tr @ [DoPrerequisite c g e]"

definition kenwood_set ::
  "transport \<Rightarrow> event list \<Rightarrow> string \<Rightarrow> string \<Rightarrow> (error + unit) \<times> event list" where
  "kenwood_set respond tr cmd val =
     (let tr1 = do_prerequisite tr cmd False True;
          (resp, tr2) = command respond tr1 (cmd @ val @ CMD_DELIMITER @ cmd);
          tr3 = do_prerequisite tr2 cmd False False
      in if resp \<noteq> cmd @ ARG_DELIMITER @ val
         then (Inl (RadioError (''Radio refused to set '' @ cmd)), tr3)
         else (Inr (), tr3))"

definition kenwood_simple_get ::
  "transport \<Rightarrow> event list \<Rightarrow> string \<Rightarrow> (error + string \<times> string) \<times> event list" where
  "kenwood_simple_get respond tr cmd =
     (let (resp, tr1) = command respond tr cmd
      in if py_slice resp 0 (length cmd) = cmd
         then (Inr (cmd, py_slice resp (length cmd) (length resp)), tr1)
         else if resp = cmd
              then (Inr (resp, []), tr1)
              else (Inl (RadioError (''Radio refused to return '' @ cmd)), tr1))"

subsection \<open>Index mapping of the sweep-limit memories\<close>

text \<open>
  \<^verbatim>\<open>int(base / 2)\<close> divides as a float and truncates toward zero; the quotient is exact
  for every \<open>base\<close> below \<open>2 ^ 53\<close> in magnitude, and \<open>int_half\<close> is that exact quotient.
  Above \<open>2 ^ 53\<close> the float quotient is rounded (and overflows beyond the float range),
  which \<open>int_half\<close> does not follow; the properties below use it on the memory numbers
  of the radio only, which are below 310.
\<close>

definition int_half :: "int \<Rightarrow> int" where
  "int_half b = (if 0 \<le> b then b div 2 else - ((- b) div 2))"

definition get_range_end_mem :: "int \<Rightarrow> int \<times> int" where
  "get_range_end_mem index =
     (let base = index - UPPER - 1;
          end = base mod 2;
          base = int_half base
      in (end, base + UPPER + 1))"

text \<open>
  Lines 229-231 of \<^verbatim>\<open>_parse_mem\<close>: the number read from the response is above
  \<open>UPPER\<close>; \<open>sub\<close> is the test \<^verbatim>\<open>spec[3] == '1'\<close>.
\<close>

definition extd_mnum :: "int \<Rightarrow> bool \<Rightarrow> int" where
  "extd_mnum mnum sub =
     (let m = UPPER + ((mnum - UPPER) * 2) - 1
      in if sub then m + 1 else m)"

subsection \<open>Tables and the channel record\<close>

definition DUPLEX :: "(int \<times> string) list" where
  "DUPLEX = [(0, ''''), (1, ''+''), (2, ''-''), (3, ''=''), (4, ''split'')]"

definition MODES :: "(int \<times> string) list" where
  "MODES = [(1, ''LSB''), (2, ''USB''), (3, ''CW''), (4, ''FM''),
            (5, ''AM''), (6, ''FSK''), (7, ''CW-R''), (9, ''FSK-R'')]"

definition SSB_STEPS :: "rat list" where
  "SSB_STEPS = [1, 2.5, 5, 10]"

definition FM_STEPS :: "rat list" where
  "FM_STEPS = [5.0, 6.25, 10.0, 12.5, 15.0, 20.0, 25.0, 30.0, 50.0, 100.0]"

definition TMODES :: "string list" where
  "TMODES = ['''', ''Tone'', ''TSQL'', ''DTCS'']"

text \<open>
  Modelled from the spec: \<^verbatim>\<open>chirp_common.Memory\<close> is not part of this file. The
  channel record of the data model is a plain record of the attributes the driver reads
  and writes; assigning an attribute stores the value.
\<close>

record memory =
  number :: int
  extd_number :: string
  empty :: bool
  freq :: int
  mode :: string
  tuning_step :: rat
  skip :: string
  tmode :: string
  rtone :: rat
  ctone :: rat
  dtcs :: int
  duplex :: string
  offset :: int
  name :: string
  immutable :: "string list"

text \<open>
  What the driver takes from the rest of chirp, as parameters: the tables
  \<^verbatim>\<open>chirp_common.OLD_TONES\<close> and \<^verbatim>\<open>chirp_common.DTCS_CODES\<close>, the freshly
  constructed \<^verbatim>\<open>chirp_common.Memory()\<close>, and the base-class methods
  \<^verbatim>\<open>_index_to_memid\<close> and \<^verbatim>\<open>_memid_to_index\<close>.
\<close>

record deps =
  OLD_TONES :: "rat list"
  DTCS_CODES :: "int list"
  new_Memory :: memory
  index_to_memid :: "int \<Rightarrow> error + string"
  memid_to_index :: "string \<Rightarrow> error + int"

definition TONES :: "deps \<Rightarrow> rat list" where
  "TONES d = filter (\<lambda>x. x \<noteq> 69.3) (OLD_TONES d)"

text \<open>
  Modelled from the spec: \<^verbatim>\<open>util.get_dict_rev\<close> is not part of this file. It
  resolves a value to its key in a table and raises KeyError for a value the table
  does not hold.
\<close>

definition get_dict_rev :: "('k \<times> 'v) list \<Rightarrow> 'v \<Rightarrow> error + 'k" where
  "get_dict_rev d v = py_dict_get (map (\<lambda>(k, v). (v, k)) d) v"

subsection \<open>Decoding a memory response: \<^verbatim>\<open>_parse_mem\<close>, \<^verbatim>\<open>_parse_split\<close>\<close>

definition IMMUTABLE :: "string list" where
  "IMMUTABLE = [''name'', ''tmode'', ''rtone'', ''ctone'', ''dtcs'', ''duplex'', ''offset'',
                ''mode'', ''tuning_step'', ''skip'']"

text \<open>Lines 227-237, on the padded string: the memory number and the extended id.\<close>

definition parse_mnum :: "deps \<Rightarrow> string \<Rightarrow> char \<Rightarrow> string \<Rightarrow> memory \<Rightarrow> error + memory" where
  "parse_mnum d spec p2 p3 mem =
     Ebind (py_int (p2 # p3)) (\<lambda>mnum.
       if mnum > UPPER
       then Ebind (py_index spec 3) (\<lambda>p1.
            let mnum = extd_mnum mnum (p1 = CHR ''1'')
            in Ebind (index_to_memid d mnum) (\<lambda>memid.
               Inr (mem\<lparr>extd_number := memid, number := mnum\<rparr>)))
       else Inr (mem\<lparr>number := mnum\<rparr>))"

text \<open>The test \<^verbatim>\<open>mem.number > self._UPPER and spec[3] == '1'\<close> of lines 245 and 260.\<close>

definition range_sub :: "string \<Rightarrow> memory \<Rightarrow> bool" where
  "range_sub spec mem = (number mem > UPPER \<and> py_index spec 3 = Inr CHR ''1'')"

text \<open>Lines 265-275: the fields only an ordinary, programmed memory has.\<close>

definition parse_mem_tail ::
  "deps \<Rightarrow> char \<Rightarrow> char \<Rightarrow> string \<Rightarrow> string \<Rightarrow> string \<Rightarrow> char \<Rightarrow> string \<Rightarrow> string
     \<Rightarrow> memory \<Rightarrow> error + memory" where
  "parse_mem_tail d p6 p7 p8 p9 p10 p12 p13 p16 mem =
     Ebind (py_int [p6]) (\<lambda>i6. Ebind (py_getitem ['''', ''S''] i6) (\<lambda>v_skip.
     Ebind (py_int [p7]) (\<lambda>i7. Ebind (py_getitem TMODES i7) (\<lambda>v_tmode.
     Ebind (py_int p8) (\<lambda>i8. Ebind (py_getitem (TONES d) (i8 - 1)) (\<lambda>v_rtone.
     Ebind (py_int p9) (\<lambda>i9. Ebind (py_getitem (TONES d) (i9 - 1)) (\<lambda>v_ctone.
     Ebind (py_int p10) (\<lambda>i10. Ebind (py_getitem (DTCS_CODES d) i10) (\<lambda>v_dtcs.
     Ebind (py_int [p12]) (\<lambda>i12. Ebind (py_dict_get DUPLEX i12) (\<lambda>v_duplex.
     Ebind (py_int p13) (\<lambda>v_offset.
     Inr (mem\<lparr>skip := v_skip, tmode := v_tmode, rtone := v_rtone, ctone := v_ctone,
               dtcs := v_dtcs, duplex := v_duplex, offset := v_offset,
               name := p16\<rparr>))))))))))))))"

definition parse_mem :: "deps \<Rightarrow> string \<Rightarrow> error + memory" where
  "parse_mem d spec0 =
     (let mem = new_Memory d;
          spec = '' '' @ spec0
      in
      Ebind (py_index spec 4) (\<lambda>p2.
      let p3 = py_slice spec 5 7;
          p4 = py_slice spec 7 18
      in
      Ebind (py_index spec 18) (\<lambda>p5.
      Ebind (py_index spec 19) (\<lambda>p6.
      Ebind (py_index spec 20) (\<lambda>p7.
      let p8 = py_slice spec 21 23;
          p9 = py_slice spec 23 25;
          p10 = py_slice spec 25 28
      in
      Ebind (py_index spec 29) (\<lambda>p12.
      let p13 = py_slice spec 30 39;
          p14 = py_slice spec 39 41;
          p16 = py_slice spec 42 49
      in
      Ebind (parse_mnum d spec p2 p3 mem) (\<lambda>mem.
      if p5 = CHR ''0''
      then Inr (if range_sub spec mem
                then mem\<lparr>empty := True, immutable := IMMUTABLE\<rparr>
                else mem\<lparr>empty := True\<rparr>)
      else
        Ebind (py_int p4) (\<lambda>v_freq.
        Ebind (py_int [p5]) (\<lambda>i5. Ebind (py_dict_get MODES i5) (\<lambda>v_mode.
        Ebind (py_int p14) (\<lambda>i14.
        Ebind (if v_mode \<in> {''AM'', ''FM''} then py_getitem FM_STEPS i14
               else py_getitem SSB_STEPS i14) (\<lambda>v_step.
        let mem = mem\<lparr>freq := v_freq, mode := v_mode, tuning_step := v_step\<rparr>
        in if range_sub spec mem
           then Inr (mem\<lparr>immutable := IMMUTABLE\<rparr>)
           else parse_mem_tail d p6 p7 p8 p9 p10 p12 p13 p16 mem))))))))))))"

definition parse_split :: "memory \<Rightarrow> string \<Rightarrow> error + memory" where
  "parse_split mem spec0 =
     (let spec = '' '' @ spec0
      in Ebind (py_int (py_slice spec 7 18)) (\<lambda>split_freq.
         if freq mem \<noteq> split_freq
         then Inr (mem\<lparr>duplex := ''split'', offset := split_freq\<rparr>)
         else Inr mem))"

subsection \<open>Encoding a memory: \<^verbatim>\<open>_make_mem_spec\<close>, \<^verbatim>\<open>_make_split_spec\<close>\<close>

text \<open>
  \<^verbatim>\<open>LOG.error(...)\<close>: the module binds no name \<^verbatim>\<open>LOG\<close> (it imports \<^verbatim>\<open>re\<close>, four
  names from \<^verbatim>\<open>chirp\<close>, \<^verbatim>\<open>KenwoodD7Family\<close> and three settings classes, and
  assigns none), so evaluating the name raises NameError before the message is built.
\<close>

definition LOG_error :: "string \<Rightarrow> error + 'a" where
  "LOG_error msg = Inl (NameError ''LOG'')"

definition make_mem_spec :: "deps \<Rightarrow> string \<Rightarrow> memory \<Rightarrow> error + string list" where
  "make_mem_spec d memid mem =
     Ebind (if py_str_in (duplex mem) '' +-''
            then Ebind (get_dict_rev DUPLEX (duplex mem)) (\<lambda>v. Inr (v, offset mem))
            else if duplex mem = ''split''
            then Inr (0, 0)
            else LOG_error (''Bug: unsupported duplex `'' @ duplex mem @ [CHR 0x27])) (\<lambda>(v_duplex, v_offset).
     Ebind (if mode mem \<in> {''AM'', ''FM''}
            then py_list_index FM_STEPS (tuning_step mem)
            else py_list_index SSB_STEPS (tuning_step mem)) (\<lambda>step.
     Ebind (if tmode mem = ''''
            then Inr (0, 0, 0)
            else Ebind (py_list_index (TONES d) (rtone mem)) (\<lambda>r.
                 Ebind (py_list_index (TONES d) (ctone mem)) (\<lambda>c.
                 Ebind (py_list_index (DTCS_CODES d) (dtcs mem)) (\<lambda>x.
                 Inr (int r + 1, int c + 1, int x))))) (\<lambda>(v_rtone, v_ctone, v_dtcs).
     Ebind (get_dict_rev MODES (mode mem)) (\<lambda>v_mode.
     Ebind (py_list_index TMODES (tmode mem)) (\<lambda>v_tmode.
     Inr [py_fmt_int 11 (freq mem),
          py_fmt_int 0 v_mode,
          py_fmt_int 0 (if skip mem = ''S'' then 1 else 0),
          py_fmt_int 0 (int v_tmode),
          py_fmt_int 2 v_rtone,
          py_fmt_int 2 v_ctone,
          py_fmt_int 3 v_dtcs,
          ''0'',
          py_fmt_int 0 v_duplex,
          py_fmt_int 9 v_offset,
          py_fmt_int 2 (int step),
          ''0'',
          name mem])))))"

definition make_split_spec :: "deps \<Rightarrow> string \<Rightarrow> memory \<Rightarrow> error + string list" where
  "make_split_spec d memid mem =
     Ebind (if py_str_in (duplex mem) '' +-''
            then get_dict_rev DUPLEX (duplex mem)
            else if duplex mem = ''split''
            then Inr 0
            else LOG_error (''Bug: unsupported duplex `'' @ duplex mem @ [CHR 0x27])) (\<lambda>v_duplex.
     Ebind (if mode mem \<in> {''AM'', ''FM''}
            then py_list_index FM_STEPS (tuning_step mem)
            else py_list_index SSB_STEPS (tuning_step mem)) (\<lambda>step.
     Ebind (if tmode mem = ''''
            then Inr (0, 0, 0)
            else Ebind (py_list_index (TONES d) (rtone mem)) (\<lambda>r.
                 Ebind (py_list_index (TONES d) (ctone mem)) (\<lambda>c.
                 Ebind (py_list_index (DTCS_CODES d) (dtcs mem)) (\<lambda>x.
                 Inr (int r + 1, int c + 1, int x))))) (\<lambda>(v_rtone, v_ctone, v_dtcs).
     Ebind (get_dict_rev MODES (mode mem)) (\<lambda>v_mode.
     Ebind (py_list_index TMODES (tmode mem)) (\<lambda>v_tmode.
     Inr [py_fmt_int 11 (offset mem),
          py_fmt_int 0 v_mode,
          py_fmt_int 0 (if skip mem = ''S'' then 1 else 0),
          py_fmt_int 0 (int v_tmode),
          py_fmt_int 2 v_rtone,
          py_fmt_int 2 v_ctone,
          py_fmt_int 3 v_dtcs,
          ''0'',
          py_fmt_int 0 v_duplex,
          py_fmt_int 9 0,
          py_fmt_int 2 (int step),
          ''0'',
          name mem])))))"

text \<open>
  \<^verbatim>\<open>_cmd_set_memory_or_split\<close>: the write command. The fields of the spec follow the
  split digit and the memory id with nothing between them.
\<close>

definition cmd_set_memory_or_split :: "deps \<Rightarrow> string \<Rightarrow> memory \<Rightarrow> bool \<Rightarrow> error + string" where
  "cmd_set_memory_or_split d memid memory split =
     Ebind (memid_to_index d memid) (\<lambda>index.
     let sd = (if split then 1 else 0) in
     Ebind (if index > UPPER
            then (if split
                  then Inl (RadioError ''Can't set split on start/end memories'')
                  else (case get_range_end_mem index of
                          (end, base) \<Rightarrow> Inr (py_fmt_int 0 end @ py_fmt_int 3 base)))
            else Inr (py_fmt_int 0 sd @ memid)) (\<lambda>memstr.
     if empty memory
     then Inr (''MW'' @ memstr @ py_fmt_int 35 0 @ '';ID'')
     else Ebind (if split then make_split_spec d memid memory
                 else make_mem_spec d memid memory) (\<lambda>spec.
          Inr (''MW'' @ memstr @ concat spec @ '';ID''))))"

text \<open>
  An instance of the parameters, for evaluating the codec on concrete responses: a
  short tone table, a short code table, a blank channel record, and memory ids that
  are three digits up to \<open>UPPER\<close> and the names of \<open>SPECIAL_CHANS\<close> above it;
  and a programmed channel: memory 5, 14.205 MHz USB, tone 88.5 Hz, named TEST.
\<close>

definition blank_memory :: memory where
  "blank_memory =
     \<lparr>number = 0, extd_number = [], empty = False, freq = 0, mode = ''FM'',
      tuning_step = 5, skip = [], tmode = [], rtone = 88.5, ctone = 88.5, dtcs = 23,
      duplex = [], offset = 600000, name = [], immutable = []\<rparr>"

definition example_memory :: memory where
  "example_memory =
     blank_memory\<lparr>number := 5, freq := 14205000, mode := ''USB'', tuning_step := 1,
                   tmode := ''Tone'', offset := 0, name := ''TEST''\<rparr>"

definition example_deps :: deps where
  "example_deps =
     \<lparr>OLD_TONES = [67.0, 69.3, 71.9, 74.4, 77.0, 79.7, 82.5, 85.4, 88.5, 91.5],
      DTCS_CODES = [23, 25, 26, 31, 32],
      new_Memory = blank_memory,
      index_to_memid = (\<lambda>i. if i \<le> UPPER then Inr (py_fmt_int 3 i)
                             else py_getitem SPECIAL_CHANS (i - UPPER - 1)),
      memid_to_index = (\<lambda>m. case py_list_index SPECIAL_CHANS m of
                                 Inr k \<Rightarrow> Inr (UPPER + 1 + int k)
                               | Inl e \<Rightarrow> py_int m)\<rparr>"

section \<open>Verified properties\<close>

subsection \<open>Auxiliary facts\<close>

lemma Ebind_Inr [simp]: "Ebind (Inr x) f = f x"
  by (simp add: Ebind_def)

lemma Ebind_Inl [simp]: "Ebind (Inl e) f = Inl e"
  by (simp add: Ebind_def)

lemma extd_mnum_above: "UPPER < n \<Longrightarrow> UPPER < extd_mnum n b"
  by (simp add: extd_mnum_def Let_def)

lemma py_slice_Cons:
  assumes "i < j" and "i < length xs"
  shows "py_slice xs i j = xs ! i # py_slice xs (Suc i) j"
proof -
  have "drop i xs = xs ! i # drop (Suc i) xs"
    using assms(2) by (simp add: Cons_nth_drop_Suc)
  moreover have "j - i = Suc (j - Suc i)"
    using assms(1) by simp
  ultimately show ?thesis
    by (simp add: py_slice_def)
qed

lemma Ebind_eq_Inr: "(Ebind m f = Inr y) = (\<exists>x. m = Inr x \<and> f x = Inr y)"
  by (cases m) simp_all

lemma py_list_index_nth:
  "py_list_index xs v = Inr i \<Longrightarrow> i < length xs \<and> xs ! i = v"
proof (induction xs arbitrary: i)
  case Nil
  then show ?case by simp
next
  case (Cons x xs)
  then show ?case
    by (cases "x = v") (auto simp: Ebind_eq_Inr)
qed

lemma py_list_index_mem:
  "v \<in> set xs \<Longrightarrow> \<exists>i. py_list_index xs v = Inr i"
  by (induction xs) auto

lemma digit_char_simps:
  "digit_char 0 = CHR ''0''" "digit_char 1 = CHR ''1''" "digit_char 2 = CHR ''2''"
  "digit_char 3 = CHR ''3''" "digit_char 4 = CHR ''4''" "digit_char 5 = CHR ''5''"
  "digit_char 6 = CHR ''6''" "digit_char 7 = CHR ''7''" "digit_char 8 = CHR ''8''"
  "digit_char 9 = CHR ''9''"
  by code_simp+

lemma digit_char_Suc_simps:
  "digit_char (Suc 0) = CHR ''1''"
  "digit_char (Suc (Suc 0)) = CHR ''2''"
  "digit_char (Suc (Suc (Suc 0))) = CHR ''3''"
  "digit_char (Suc (Suc (Suc (Suc 0)))) = CHR ''4''"
  "digit_char (Suc (Suc (Suc (Suc (Suc 0))))) = CHR ''5''"
  "digit_char (Suc (Suc (Suc (Suc (Suc (Suc 0)))))) = CHR ''6''"
  "digit_char (Suc (Suc (Suc (Suc (Suc (Suc (Suc 0))))))) = CHR ''7''"
  "digit_char (Suc (Suc (Suc (Suc (Suc (Suc (Suc (Suc 0)))))))) = CHR ''8''"
  "digit_char (Suc (Suc (Suc (Suc (Suc (Suc (Suc (Suc (Suc 0))))))))) = CHR ''9''"
  by code_simp+

lemma replicate_numeral: "replicate (numeral k) x = x # replicate (pred_numeral k) x"
  by (simp add: numeral_eq_Suc)

text \<open>The equations that evaluate the encoder on a concrete channel record.\<close>

lemmas fmt_eval =
  py_fmt_int_def show_nat.simps digit_char_simps digit_char_Suc_simps replicate_numeral

lemmas enc_defs =
  make_mem_spec_def make_split_spec_def cmd_set_memory_or_split_def LOG_error_def
  get_dict_rev_def py_dict_get_def py_str_in_def upt_rec
  example_memory_def example_deps_def blank_memory_def
  MODES_def DUPLEX_def TMODES_def TONES_def FM_STEPS_def SSB_STEPS_def

lemma py_fmt_int_zero: "py_fmt_int 2 0 = ''00''" "py_fmt_int 3 0 = ''000''"
  by (simp_all add: fmt_eval)

lemma take_length_Nil: "(take (length a) [] = a) = (a = [])"
  by auto

lemma take_length_Cons:
  "(take (length a) (x # xs) = a) = (a = [] \<or> (\<exists>b. a = x # b \<and> take (length b) xs = b))"
  by (cases a) auto

text \<open>The strings that pass the test \<^verbatim>\<open>mem.duplex in " +-"\<close>.\<close>

lemma py_str_in_duplex:
  "py_str_in a '' +-'' = (a \<in> {'''', '' '', ''+'', ''-'', '' +'', ''+-'', '' +-''})"
  by (auto simp: py_str_in_def upt_rec take_length_Nil take_length_Cons)

text \<open>
  Whatever the duplex value outside \<^verbatim>\<open>""\<close>, \<^verbatim>\<open>"+"\<close>, \<^verbatim>\<open>"-"\<close> and
  \<^verbatim>\<open>"split"\<close>, neither builder returns a spec: the substrings of \<^verbatim>\<open>" +-"\<close> raise
  KeyError in the table lookup, every other value raises NameError in the logging call.
\<close>

lemma unsupported_duplex_no_spec:
  assumes "duplex mem \<notin> {'''', ''+'', ''-'', ''split''}"
  shows "make_mem_spec d memid mem \<in> {Inl (NameError ''LOG''), Inl KeyError}"
    and "make_split_spec d memid mem \<in> {Inl (NameError ''LOG''), Inl KeyError}"
  using assms
  by (auto simp: make_mem_spec_def make_split_spec_def py_str_in_duplex LOG_error_def
        get_dict_rev_def py_dict_get_def DUPLEX_def)

lemma parse_mem_tail_mode_step:
  "parse_mem_tail d p6 p7 p8 p9 p10 p12 p13 p16 mem = Inr m
     \<Longrightarrow> mode m = mode mem \<and> tuning_step m = tuning_step mem"
  by (auto simp: parse_mem_tail_def Ebind_eq_Inr)

lemma parse_mem_last_step:
  "(if c then Inr (mem\<lparr>immutable := imm\<rparr>)
    else parse_mem_tail d p6 p7 p8 p9 p10 p12 p13 p16 mem) = Inr m
     \<Longrightarrow> mode m = mode mem \<and> tuning_step m = tuning_step mem"
  by (cases c) (auto dest: parse_mem_tail_mode_step)

lemma parse_mem_Inr_length:
  assumes "parse_mem d spec0 = Inr m"
  shows "29 \<le> length spec0"
proof (rule ccontr)
  assume "\<not> 29 \<le> length spec0"
  then have "py_index ('' '' @ spec0) 29 = Inl IndexError"
    by (simp add: py_index_def)
  then have "\<exists>e. parse_mem d spec0 = Inl e"
    by (simp add: parse_mem_def Let_def Ebind_def split: sum.splits)
  with assms show False by auto
qed

lemma parse_mem_programmed_eq:
  assumes len: "29 \<le> length spec0"
      and ne: "spec0 ! 17 \<noteq> CHR ''0''"
  shows "parse_mem d spec0 =
     Ebind (parse_mnum d (CHR '' '' # spec0) (spec0 ! 3) (py_slice (CHR '' '' # spec0) 5 7)
              (new_Memory d)) (\<lambda>mem.
     Ebind (py_int (py_slice (CHR '' '' # spec0) 7 18)) (\<lambda>v_freq.
     Ebind (py_int [spec0 ! 17]) (\<lambda>i5.
     Ebind (py_dict_get MODES i5) (\<lambda>v_mode.
     Ebind (py_int (py_slice (CHR '' '' # spec0) 39 41)) (\<lambda>i14.
     Ebind (if v_mode \<in> {''AM'', ''FM''} then py_getitem FM_STEPS i14
            else py_getitem SSB_STEPS i14) (\<lambda>v_step.
     if range_sub (CHR '' '' # spec0) (mem\<lparr>freq := v_freq, mode := v_mode, tuning_step := v_step\<rparr>)
     then Inr (mem\<lparr>freq := v_freq, mode := v_mode, tuning_step := v_step\<rparr>\<lparr>immutable := IMMUTABLE\<rparr>)
     else parse_mem_tail d (spec0 ! 18) (spec0 ! 19)
            (py_slice (CHR '' '' # spec0) 21 23) (py_slice (CHR '' '' # spec0) 23 25)
            (py_slice (CHR '' '' # spec0) 25 28) (spec0 ! 28)
            (py_slice (CHR '' '' # spec0) 30 39) (py_slice (CHR '' '' # spec0) 42 49)
            (mem\<lparr>freq := v_freq, mode := v_mode, tuning_step := v_step\<rparr>)))))))"
  using assms by (simp add: parse_mem_def py_index_def Let_def)

lemma parse_mem_programmed:
  assumes ok: "parse_mem d spec0 = Inr m"
      and ne: "spec0 ! 17 \<noteq> CHR ''0''"
  shows "\<exists>i5 i14. py_int [spec0 ! 17] = Inr i5
              \<and> py_dict_get MODES i5 = Inr (mode m)
              \<and> py_int (py_slice (CHR '' '' # spec0) 39 41) = Inr i14
              \<and> py_getitem (if mode m \<in> {''AM'', ''FM''} then FM_STEPS else SSB_STEPS) i14
                    = Inr (tuning_step m)"
proof -
  have len: "29 \<le> length spec0"
    using ok by (rule parse_mem_Inr_length)
  from ok obtain mem1 vf i5 vm i14 vs where
        mdi: "py_int [spec0 ! 17] = Inr i5"
    and mdv: "py_dict_get MODES i5 = Inr vm"
    and sti: "py_int (py_slice (CHR '' '' # spec0) 39 41) = Inr i14"
    and stv: "(if vm \<in> {''AM'', ''FM''} then py_getitem FM_STEPS i14
               else py_getitem SSB_STEPS i14) = Inr vs"
    and fin: "(if range_sub (CHR '' '' # spec0) (mem1\<lparr>freq := vf, mode := vm, tuning_step := vs\<rparr>)
               then Inr (mem1\<lparr>freq := vf, mode := vm, tuning_step := vs\<rparr>\<lparr>immutable := IMMUTABLE\<rparr>)
               else parse_mem_tail d (spec0 ! 18) (spec0 ! 19)
                      (py_slice (CHR '' '' # spec0) 21 23) (py_slice (CHR '' '' # spec0) 23 25)
                      (py_slice (CHR '' '' # spec0) 25 28) (spec0 ! 28)
                      (py_slice (CHR '' '' # spec0) 30 39) (py_slice (CHR '' '' # spec0) 42 49)
                      (mem1\<lparr>freq := vf, mode := vm, tuning_step := vs\<rparr>)) = Inr m"
    unfolding parse_mem_programmed_eq [OF len ne] Ebind_eq_Inr by blast
  have "mode m = vm \<and> tuning_step m = vs"
    using parse_mem_last_step [OF fin] by simp
  then show ?thesis
    using mdi mdv sti stv by (cases "vm \<in> {''AM'', ''FM''}") auto
qed

text \<open>Decimal rendering and \<^verbatim>\<open>int()\<close> are inverse to each other.\<close>

lemma digit_char_props:
  assumes "d < 10"
  shows "is_digit (digit_char d)" and "digit_val (digit_char d) = d"
    and "\<not> is_space (digit_char d)" and "digit_char d \<noteq> CHR ''-''"
    and "digit_char d \<noteq> CHR ''+''"
proof -
  have oc: "(of_char (digit_char d) :: nat) = 48 + d"
    using assms by (simp add: digit_char_def)
  show "is_digit (digit_char d)"
    using assms by (simp add: is_digit_def oc)
  show "digit_val (digit_char d) = d"
    by (simp add: digit_val_def oc)
  show "\<not> is_space (digit_char d)"
    using assms by (simp add: is_space_def oc)
  have "(of_char (digit_char d) :: nat) \<noteq> of_char CHR ''-''"
    using assms by (simp add: oc)
  then show "digit_char d \<noteq> CHR ''-''" by metis
  have "(of_char (digit_char d) :: nat) \<noteq> of_char CHR ''+''"
    using assms by (simp add: oc)
  then show "digit_char d \<noteq> CHR ''+''" by metis
qed

lemma zero_char_props:
  "is_digit CHR ''0''" "digit_val CHR ''0'' = 0" "\<not> is_space CHR ''0''"
  by (simp_all add: is_digit_def digit_val_def is_space_def)

lemma is_digit_props:
  "is_digit c \<Longrightarrow> \<not> is_space c \<and> c \<noteq> CHR ''-'' \<and> c \<noteq> CHR ''+''"
  by (auto simp: is_digit_def is_space_def)

lemma show_nat_all_digits: "show_nat n \<noteq> [] \<and> list_all is_digit (show_nat n)"
proof (induction n rule: show_nat.induct)
  case (1 n)
  show ?case
  proof (cases "n < 10")
    case True
    then show ?thesis
      by (simp add: show_nat.simps [of n] digit_char_props)
  next
    case False
    then have "list_all is_digit (show_nat (n div 10))" using 1 by simp
    moreover have "n mod 10 < 10" by simp
    ultimately show ?thesis
      using False by (simp add: show_nat.simps [of n] digit_char_props)
  qed
qed

lemma py_digits_foldl:
  assumes "list_all is_digit xs" and "xs \<noteq> [] \<or> prev"
  shows "py_digits prev acc xs = Some (foldl (\<lambda>a c. a * 10 + digit_val c) acc xs)"
  using assms by (induction xs arbitrary: prev acc) auto

lemma foldl_show_nat:
  "foldl (\<lambda>a c. a * 10 + digit_val c) acc (show_nat n) = acc * 10 ^ length (show_nat n) + n"
proof (induction n arbitrary: acc rule: show_nat.induct)
  case (1 n)
  show ?case
  proof (cases "n < 10")
    case True
    then show ?thesis
      by (simp add: show_nat.simps [of n] digit_char_props)
  next
    case False
    have "n mod 10 < 10" by simp
    then show ?thesis
      using False 1 [of acc]
      by (simp add: show_nat.simps [of n] digit_char_props algebra_simps)
  qed
qed

lemma py_digits_show_nat:
  "py_digits prev acc (show_nat n) = Some (acc * 10 ^ length (show_nat n) + n)"
proof -
  have "list_all is_digit (show_nat n)" and "show_nat n \<noteq> []"
    using show_nat_all_digits [of n] by simp_all
  then show ?thesis
    by (simp add: py_digits_foldl foldl_show_nat)
qed

lemma py_digits_zeros:
  "py_digits prev 0 (replicate k CHR ''0'' @ show_nat n) = Some n"
  by (induction k arbitrary: prev) (simp_all add: py_digits_show_nat zero_char_props)

lemma py_strip_id:
  assumes "s \<noteq> []" and "\<not> is_space (hd s)" and "\<not> is_space (last s)"
  shows "py_strip s = s"
proof -
  have a: "dropWhile is_space s = s"
    using assms(1,2) by (cases s) simp_all
  have "rev s \<noteq> []" and "\<not> is_space (hd (rev s))"
    using assms(1,3) by (simp_all add: hd_rev)
  then have "dropWhile is_space (rev s) = rev s"
    by (cases "rev s") simp_all
  then show ?thesis
    by (simp add: py_strip_def a)
qed

lemma show_nat_ends:
  "show_nat n \<noteq> []" "is_digit (hd (show_nat n))" "\<not> is_space (hd (show_nat n))"
  "\<not> is_space (last (show_nat n))" "hd (show_nat n) \<noteq> CHR ''-''" "hd (show_nat n) \<noteq> CHR ''+''"
proof -
  obtain c cs where ds: "show_nat n = c # cs" and dg: "list_all is_digit (c # cs)"
    using show_nat_all_digits [of n] by (cases "show_nat n") auto
  have "is_digit (last (c # cs))"
    using dg by (metis last_in_set list.distinct(1) list_all_iff)
  then show "show_nat n \<noteq> []" "is_digit (hd (show_nat n))" "\<not> is_space (hd (show_nat n))"
    "\<not> is_space (last (show_nat n))" "hd (show_nat n) \<noteq> CHR ''-''"
    "hd (show_nat n) \<noteq> CHR ''+''"
    using dg is_digit_props [of c] is_digit_props [of "last (c # cs)"] by (simp_all add: ds)
qed

lemma py_int_py_fmt_int: "py_int (py_fmt_int w n) = Inr n"
proof (cases "n < 0")
  case True
  define ds where "ds = replicate (w - 1 - length (show_nat (nat (- n)))) CHR ''0'' @ show_nat (nat (- n))"
  have fmt: "py_fmt_int w n = CHR ''-'' # ds"
    using True by (simp add: py_fmt_int_def ds_def)
  have "last (CHR ''-'' # ds) = last (show_nat (nat (- n)))"
    using show_nat_ends(1) [of "nat (- n)"] by (simp add: ds_def)
  then have "py_strip (CHR ''-'' # ds) = CHR ''-'' # ds"
    using show_nat_ends(4) [of "nat (- n)"] by (intro py_strip_id) (simp_all add: is_space_def)
  moreover have "py_digits False 0 ds = Some (nat (- n))"
    by (simp add: ds_def py_digits_zeros)
  ultimately show ?thesis
    using True by (simp add: py_int_def fmt)
next
  case False
  define k where "k = w - length (show_nat (nat n))"
  define ds where "ds = replicate k CHR ''0'' @ show_nat (nat n)"
  have fmt: "py_fmt_int w n = ds"
    using False by (simp add: py_fmt_int_def ds_def k_def)
  obtain c cs where ds: "ds = c # cs" and c: "\<not> is_space c" "c \<noteq> CHR ''-''" "c \<noteq> CHR ''+''"
    using show_nat_ends [of "nat n"]
    by (cases k; cases "show_nat (nat n)") (auto simp: ds_def zero_char_props)
  have "last ds = last (show_nat (nat n))"
    using show_nat_ends(1) [of "nat n"] by (simp add: ds_def)
  then have strip: "py_strip ds = ds"
    using show_nat_ends(4) [of "nat n"] ds c by (intro py_strip_id) simp_all
  have "py_digits False 0 ds = Some (nat n)"
    by (simp add: ds_def py_digits_zeros)
  then show ?thesis
    using False c by (simp add: py_int_def fmt strip ds [symmetric]) (simp add: ds)
qed

lemma length_show_nat: "n < 10 ^ w \<Longrightarrow> 0 < w \<Longrightarrow> length (show_nat n) \<le> w"
proof (induction n arbitrary: w rule: show_nat.induct)
  case (1 n)
  show ?case
  proof (cases "n < 10")
    case True
    then show ?thesis using 1(3) by (simp add: show_nat.simps [of n])
  next
    case False
    obtain v where w: "w = Suc v" using 1(3) by (cases w) auto
    have "v \<noteq> 0" using False 1(2) w by (cases v) auto
    moreover have "n div 10 < 10 ^ v" using 1(2) w by (simp add: less_mult_imp_div_less mult.commute)
    ultimately have "length (show_nat (n div 10)) \<le> v"
      using 1(1) [of v] False by simp
    then show ?thesis using False w by (simp add: show_nat.simps [of n])
  qed
qed

lemma length_py_fmt_int:
  assumes "0 \<le> n" and "n < 10 ^ w" and "0 < w"
  shows "length (py_fmt_int w n) = w"
proof -
  have "nat n < 10 ^ w"
    using assms(1,2) by (simp add: nat_less_iff)
  then have "length (show_nat (nat n)) \<le> w"
    using assms(3) by (rule length_show_nat)
  then show ?thesis
    using assms(1) by (simp add: py_fmt_int_def)
qed

lemma py_fmt_int_digit:
  assumes "0 \<le> n" and "n < 10"
  shows "py_fmt_int 0 n = [digit_char (nat n)]"
proof -
  have "nat n < 10" using assms by simp
  then have "show_nat (nat n) = [digit_char (nat n)]"
    by (simp add: show_nat.simps [of "nat n"])
  then show ?thesis
    using assms(1) by (simp add: py_fmt_int_def)
qed

text \<open>Where the fields of a memory response lie, by their widths.\<close>

lemma response_layout:
  fixes memid F M S T R C D DU O2 ST nm :: string and p1 rv g :: char
  assumes "length memid = 3" and "length F = 11" and "length M = 1" and "length S = 1"
      and "length T = 1" and "length R = 2" and "length C = 2" and "length D = 3"
      and "length DU = 1" and "length O2 = 9" and "length ST = 2"
  defines "s \<equiv> CHR ''M'' # CHR ''R'' # p1 #
                 memid @ F @ M @ S @ T @ R @ C @ D @ rv # DU @ O2 @ ST @ g # nm"
  shows "s ! 2 = p1"
    and "s ! 3 = memid ! 0"
    and "memid ! 0 # py_slice (CHR '' '' # s) 5 7 = memid"
    and "py_slice (CHR '' '' # s) 7 18 = F"
    and "s ! 17 = M ! 0"
    and "s ! 18 = S ! 0"
    and "s ! 19 = T ! 0"
    and "py_slice (CHR '' '' # s) 21 23 = R"
    and "py_slice (CHR '' '' # s) 23 25 = C"
    and "py_slice (CHR '' '' # s) 25 28 = D"
    and "s ! 28 = DU ! 0"
    and "py_slice (CHR '' '' # s) 30 39 = O2"
    and "py_slice (CHR '' '' # s) 39 41 = ST"
    and "py_slice (CHR '' '' # s) 42 49 = take 7 nm"
    and "29 \<le> length s"
proof -
  obtain a b c where memid: "memid = [a, b, c]"
    using assms(1) by (auto simp: length_Suc_conv numeral_eq_Suc)
  show "s ! 2 = p1" "s ! 3 = memid ! 0"
       "memid ! 0 # py_slice (CHR '' '' # s) 5 7 = memid" "py_slice (CHR '' '' # s) 7 18 = F"
    using assms(2) by (simp_all add: s_def memid py_slice_def)
  show "s ! 17 = M ! 0" "s ! 18 = S ! 0" "s ! 19 = T ! 0"
    using assms(2-5) by (simp_all add: s_def memid nth_append)
  show "py_slice (CHR '' '' # s) 21 23 = R" "py_slice (CHR '' '' # s) 23 25 = C"
       "py_slice (CHR '' '' # s) 25 28 = D"
    using assms(2-8) by (simp_all add: s_def memid py_slice_def)
  show "s ! 28 = DU ! 0"
    using assms(2-9) by (simp add: s_def memid nth_append)
  show "py_slice (CHR '' '' # s) 30 39 = O2" "py_slice (CHR '' '' # s) 39 41 = ST"
       "py_slice (CHR '' '' # s) 42 49 = take 7 nm"
    using assms(2-11) by (simp_all add: s_def memid py_slice_def)
  show "29 \<le> length s"
    using assms by (simp add: s_def)
qed

lemma singleton_nth: "length xs = 1 \<Longrightarrow> [xs ! 0] = xs"
  by (cases xs) simp_all

lemma py_getitem_index:
  "py_list_index xs v = Inr k \<Longrightarrow> py_getitem xs (int k) = Inr v"
  using py_list_index_nth [of xs v k] by (simp add: py_getitem_def)

lemma digit_char_zero:
  assumes "d < 10"
  shows "(digit_char d = CHR ''0'') = (d = 0)"
proof
  assume "digit_char d = CHR ''0''"
  then have "digit_val (digit_char d) = digit_val CHR ''0''" by simp
  then show "d = 0"
    using digit_char_props(2) [OF assms] by (simp add: zero_char_props)
next
  assume "d = 0"
  then show "digit_char d = CHR ''0''" by (simp add: digit_char_simps)
qed

lemma modes_rev:
  assumes "md \<in> snd ` set MODES"
  shows "\<exists>k. get_dict_rev MODES md = Inr k \<and> 1 \<le> k \<and> k < 10 \<and> py_dict_get MODES k = Inr md"
  using assms by (auto simp: MODES_def get_dict_rev_def py_dict_get_def)

lemma duplex_rev:
  assumes "du \<in> {'''', ''+'', ''-''}"
  shows "\<exists>k. get_dict_rev DUPLEX du = Inr k \<and> 0 \<le> k \<and> k < 10 \<and> py_dict_get DUPLEX k = Inr du"
  using assms by (auto simp: DUPLEX_def get_dict_rev_def py_dict_get_def)

text \<open>
  The write command for an ordinary memory carries the split digit 0, the memory id
  and the fields of the spec; the radio answers a read of that memory with the same
  payload after \<^verbatim>\<open>MR\<close>.
\<close>

lemma cmd_set_memory_payload:
  assumes "memid_to_index d memid = Inr i" and "i \<le> UPPER" and "\<not> empty mem"
      and "make_mem_spec d memid mem = Inr spec"
  shows "cmd_set_memory_or_split d memid mem False = Inr (''MW0'' @ memid @ concat spec @ '';ID'')"
  using assms by (simp add: cmd_set_memory_or_split_def Let_def fmt_eval)

text \<open>\<^verbatim>\<open>int()\<close> raises nothing but ValueError.\<close>

lemma py_int_error: "py_int s = Inl e \<Longrightarrow> e = ValueError"
  by (auto simp: py_int_def split: list.splits if_splits option.splits)

text \<open>
  A separator U+001C in front of the digits is not stripped: the conversion raises,
  while a space or a no-break space there is skipped.
\<close>

lemma py_int_separator:
  "py_int [CHR 0x1C, CHR ''0'', CHR ''5''] = Inl ValueError
   \<and> py_int [CHR '' '', CHR ''0'', CHR ''5''] = Inr 5
   \<and> py_int [CHR 0xA0, CHR ''0'', CHR ''5''] = Inr 5"
  by (simp add: py_int_def py_strip_def is_space_def is_digit_def digit_val_def)

text \<open>The equations that evaluate the decoder on a concrete response.\<close>

lemmas eval_defs =
  parse_mem_def parse_mnum_def parse_mem_tail_def parse_split_def range_sub_def
  py_index_def py_slice_def py_int_def py_strip_def is_space_def is_digit_def digit_val_def
  py_getitem_def py_dict_get_def Let_def example_deps_def blank_memory_def UPPER_def
  extd_mnum_def MODES_def DUPLEX_def TMODES_def TONES_def FM_STEPS_def SSB_STEPS_def
  SPECIAL_CHANS_def IMMUTABLE_def

subsection \<open>The claims\<close>

text \<open>
  C1. For every extended logical index \<open>i\<close> in \<open>UPPER+1 .. UPPER+20\<close>, the pair
  (half, base) computed by \<^verbatim>\<open>_get_range_end_mem\<close> has a base above \<open>UPPER\<close> and a
  half of 0 or 1, and the recomputation of \<^verbatim>\<open>_parse_mem\<close> (with the increment taken
  exactly when the half is 1) gives \<open>i\<close> back.
\<close>

theorem index_mapping_roundtrip:
  assumes "UPPER + 1 \<le> i" and "i \<le> UPPER + 20"
  shows "case get_range_end_mem i of
           (half, base) \<Rightarrow> UPPER < base \<and> (half = 0 \<or> half = 1) \<and> extd_mnum base (half = 1) = i"
proof -
  define d where "d = i - UPPER - 1"
  have d0: "0 \<le> d" using assms(1) by (simp add: d_def)
  have half: "d mod 2 = 0 \<or> d mod 2 = 1" by presburger
  have base: "0 \<le> d div 2" using d0 by simp
  have pair: "get_range_end_mem i = (d mod 2, d div 2 + UPPER + 1)"
    using d0 by (simp add: get_range_end_mem_def int_half_def d_def Let_def)
  have "extd_mnum (d div 2 + UPPER + 1) (d mod 2 = 1) = d + UPPER + 1"
    using half by (auto simp: extd_mnum_def Let_def) presburger+
  then have again: "extd_mnum (d div 2 + UPPER + 1) (d mod 2 = 1) = i"
    by (simp add: d_def)
  show ?thesis using pair half base again by auto
qed

theorem index_mapping_roundtrip_witness:
  "UPPER + 1 \<le> 293 \<and> 293 \<le> UPPER + 20 \<and> get_range_end_mem 293 = (1, 291)
   \<and> extd_mnum 291 True = 293"
  using index_mapping_roundtrip [of 293]
  by (simp add: UPPER_def get_range_end_mem_def int_half_def extd_mnum_def Let_def)

text \<open>
  C7. \<^verbatim>\<open>_kenwood_simple_get\<close>: when the response starts with the key, the result is
  the key and the payload that follows it; a response equal to the key gives the empty
  payload and no error; a response that does not start with the key raises
  \<^verbatim>\<open>RadioError("Radio refused to return <key>")\<close>. In every case exactly the bare key
  is sent.
\<close>

theorem kenwood_simple_get_payload:
  "(\<forall>payload. respond tr cmd = cmd @ payload \<longrightarrow>
       fst (kenwood_simple_get respond tr cmd) = Inr (cmd, payload))
   \<and> (respond tr cmd = cmd \<longrightarrow> fst (kenwood_simple_get respond tr cmd) = Inr (cmd, []))
   \<and> ((\<nexists>payload. respond tr cmd = cmd @ payload) \<longrightarrow>
       fst (kenwood_simple_get respond tr cmd)
         = Inl (RadioError (''Radio refused to return '' @ cmd)))
   \<and> snd (kenwood_simple_get respond tr cmd) = tr @ [Command cmd]"
proof -
  have starts: "(take (length cmd) (respond tr cmd) = cmd) = (\<exists>payload. respond tr cmd = cmd @ payload)"
    by (metis append_eq_conv_conj)
  show ?thesis
    unfolding kenwood_simple_get_def command_def py_slice_def Let_def
    using starts by (auto simp: split_def)
qed

theorem kenwood_simple_get_payload_witness:
  "fst (kenwood_simple_get (\<lambda>tr c. ''EX0120000'' @ ''1'') [] ''EX0120000'') = Inr (''EX0120000'', ''1'')
   \<and> fst (kenwood_simple_get (\<lambda>tr c. ''EX0120000'') [] ''EX0120000'') = Inr (''EX0120000'', [])
   \<and> fst (kenwood_simple_get (\<lambda>tr c. ''?'') [] ''EX0120000'')
       = Inl (RadioError ''Radio refused to return EX0120000'')"
proof -
  have a: "fst (kenwood_simple_get (\<lambda>tr c. ''EX0120000'' @ ''1'') [] ''EX0120000'') = Inr (''EX0120000'', ''1'')"
    using kenwood_simple_get_payload [of "\<lambda>tr c. ''EX0120000'' @ ''1''" "[]" "''EX0120000''"]
    by blast
  have b: "fst (kenwood_simple_get (\<lambda>tr c. ''EX0120000'') [] ''EX0120000'') = Inr (''EX0120000'', [])"
    using kenwood_simple_get_payload [of "\<lambda>tr c. ''EX0120000''" "[]" "''EX0120000''"]
    by blast
  have "\<nexists>payload. ''?'' = ''EX0120000'' @ payload"
    by simp
  then have c: "fst (kenwood_simple_get (\<lambda>tr c. ''?'') [] ''EX0120000'')
       = Inl (RadioError ''Radio refused to return EX0120000'')"
    using kenwood_simple_get_payload [of "\<lambda>tr c. ''?''" "[]" "''EX0120000''"]
    by simp
  show ?thesis using a b c by blast
qed

text \<open>
  C8. \<^verbatim>\<open>_kenwood_set\<close>: the calls made are, in this order and nothing else, the
  priming call \<^verbatim>\<open>_do_prerequisite(key, False, True)\<close>, the command
  \<^verbatim>\<open>key + value + ";" + key\<close>, and the priming call
  \<^verbatim>\<open>_do_prerequisite(key, False, False)\<close>; the result is
  \<^verbatim>\<open>RadioError("Radio refused to set <key>")\<close> if and only if the response to the
  command differs from \<^verbatim>\<open>key + value\<close>, and a normal return otherwise.
\<close>

theorem kenwood_set_sequence:
  "snd (kenwood_set respond tr cmd val)
     = tr @ [DoPrerequisite cmd False True,
             Command (cmd @ val @ '';'' @ cmd),
             DoPrerequisite cmd False False]
   \<and> (fst (kenwood_set respond tr cmd val) = Inl (RadioError (''Radio refused to set '' @ cmd))
        \<longleftrightarrow> respond (tr @ [DoPrerequisite cmd False True]) (cmd @ val @ '';'' @ cmd) \<noteq> cmd @ val)
   \<and> (fst (kenwood_set respond tr cmd val) = Inr ()
        \<longleftrightarrow> respond (tr @ [DoPrerequisite cmd False True]) (cmd @ val @ '';'' @ cmd) = cmd @ val)"
  by (simp add: kenwood_set_def command_def do_prerequisite_def Let_def
        ARG_DELIMITER_def CMD_DELIMITER_def)

theorem kenwood_set_sequence_witness:
  "kenwood_set (\<lambda>tr c. ''EX01200001'') [] ''EX0120000'' ''1''
     = (Inr (), [DoPrerequisite ''EX0120000'' False True,
                 Command ''EX01200001;EX0120000'',
                 DoPrerequisite ''EX0120000'' False False])
   \<and> fst (kenwood_set (\<lambda>tr c. ''?'') [] ''EX0120000'' ''1'')
     = Inl (RadioError ''Radio refused to set EX0120000'')"
proof -
  have a: "fst (kenwood_set (\<lambda>tr c. ''EX01200001'') [] ''EX0120000'' ''1'') = Inr ()"
    using kenwood_set_sequence [of "\<lambda>tr c. ''EX01200001''" "[]" "''EX0120000''" "''1''"]
    by simp
  have b: "snd (kenwood_set (\<lambda>tr c. ''EX01200001'') [] ''EX0120000'' ''1'')
            = [DoPrerequisite ''EX0120000'' False True,
               Command ''EX01200001;EX0120000'',
               DoPrerequisite ''EX0120000'' False False]"
    using kenwood_set_sequence [of "\<lambda>tr c. ''EX01200001''" "[]" "''EX0120000''" "''1''"]
    by simp
  have c: "fst (kenwood_set (\<lambda>tr c. ''?'') [] ''EX0120000'' ''1'')
            = Inl (RadioError ''Radio refused to set EX0120000'')"
    using kenwood_set_sequence [of "\<lambda>tr c. ''?''" "[]" "''EX0120000''" "''1''"]
    by simp
  show ?thesis using a b c by (simp add: prod_eq_iff)
qed

text \<open>
  C5 (as amended). The empty flag is the mode digit \<^verbatim>\<open>_p5 = spec[18]\<close> of the padded
  response. For every response whose \<^verbatim>\<open>spec[18]\<close> is \<^verbatim>\<open>'0'\<close>, \<^verbatim>\<open>_parse_mem\<close>
  reads the single characters up to \<^verbatim>\<open>spec[29]\<close> and the memory number
  \<^verbatim>\<open>int(spec[4:7])\<close> and nothing else. It raises IndexError when the response has
  fewer than 29 characters, ValueError when the number field is no integer literal,
  and above \<open>UPPER\<close> what the lookup of the extended id raises; in every other case it
  returns the fresh record with the number (and extended id) set, \<open>empty = True\<close>, the
  immutable list set when the number is above \<open>UPPER\<close> and \<^verbatim>\<open>spec[3] == '1'\<close>, and
  every other field as constructed, whatever the remaining characters are.
\<close>

theorem parse_mem_empty_record:
  assumes flag: "py_index ('' '' @ spec0) 18 = Inr CHR ''0''"
  shows "parse_mem d spec0 =
     (if length spec0 < 29 then Inl IndexError
      else case py_int (py_slice ('' '' @ spec0) 4 7) of
        Inl e \<Rightarrow> Inl ValueError
      | Inr n \<Rightarrow>
          if n \<le> UPPER then Inr ((new_Memory d)\<lparr>number := n, empty := True\<rparr>)
          else (case index_to_memid d (extd_mnum n (('' '' @ spec0) ! 3 = CHR ''1'')) of
                  Inl e \<Rightarrow> Inl e
                | Inr memid \<Rightarrow>
                    Inr ((new_Memory d)
                          \<lparr>number := extd_mnum n (('' '' @ spec0) ! 3 = CHR ''1''),
                           extd_number := memid,
                           empty := True,
                           immutable := (if ('' '' @ spec0) ! 3 = CHR ''1'' then IMMUTABLE
                                         else immutable (new_Memory d))\<rparr>)))"
proof (cases "length spec0 < 29")
  case True
  have "py_index ('' '' @ spec0) 29 = Inl IndexError"
    using True by (simp add: py_index_def)
  then have "\<exists>e. parse_mem d spec0 = Inl e \<and> e = IndexError"
    by (simp add: parse_mem_def Let_def py_index_def)
  then show ?thesis
    using True by simp
next
  case False
  then have len: "29 \<le> length spec0" by simp
  have fl: "spec0 ! 17 = CHR ''0''"
    using flag len by (simp add: py_index_def)
  have hd: "spec0 ! 3 # py_slice (CHR '' '' # spec0) 5 7 = py_slice (CHR '' '' # spec0) 4 7"
    using len py_slice_Cons [of 4 7 "CHR '' '' # spec0"] by simp
  show ?thesis
    using len fl
    by (auto simp: parse_mem_def parse_mnum_def range_sub_def py_index_def Let_def hd extd_mnum_above
         split: sum.splits dest: py_int_error)
qed

theorem parse_mem_empty_record_witness:
  "parse_mem example_deps ''MR000500000000000000000000000000000000000''
     = Inr (blank_memory\<lparr>number := 5, empty := True\<rparr>)
   \<and> parse_mem example_deps ''MR129000000000000000000000000000000000000''
     = Inr (blank_memory\<lparr>number := 291, extd_number := ''290 End'', empty := True,
                           immutable := IMMUTABLE\<rparr>)"
proof -
  have a: "parse_mem example_deps ''MR000500000000000000000000000000000000000''
     = Inr (blank_memory\<lparr>number := 5, empty := True\<rparr>)"
    using parse_mem_empty_record [of "''MR000500000000000000000000000000000000000''" example_deps]
    by (simp add: eval_defs)
  have b: "parse_mem example_deps ''MR129000000000000000000000000000000000000''
     = Inr (blank_memory\<lparr>number := 291, extd_number := ''290 End'', empty := True,
                           immutable := IMMUTABLE\<rparr>)"
    using parse_mem_empty_record [of "''MR129000000000000000000000000000000000000''" example_deps]
    by (simp add: eval_defs)
  show ?thesis using a b by blast
qed

text \<open>
  C5 as stated fails on responses whose mode digit \<^verbatim>\<open>spec[18]\<close> is \<^verbatim>\<open>'0'\<close>. In
  the first, all zeros but for a memory number field \<^verbatim>\<open>"x05"\<close>, the conversion at
  line 227 raises ValueError. The second, an all-zero record for memory 005 cut off
  after 18 characters, has no \<^verbatim>\<open>spec[19]\<close>, and the read at line 215 raises
  IndexError. Neither returns an empty record.
\<close>

theorem parse_mem_empty_flag_counterexample:
  "py_index ('' '' @ ''MR0x0500000000000000000000000000000000000'') 18 = Inr CHR ''0''
   \<and> parse_mem example_deps ''MR0x0500000000000000000000000000000000000'' = Inl ValueError
   \<and> py_index ('' '' @ ''MR0005000000000000'') 18 = Inr CHR ''0''
   \<and> parse_mem example_deps ''MR0005000000000000'' = Inl IndexError"
  by (simp add: eval_defs)

text \<open>
  C6 (as amended). The sub-channel that \<^verbatim>\<open>_parse_mem\<close> treats as read-only is the
  one with \<^verbatim>\<open>spec[3] == '1'\<close>, the half that \<^verbatim>\<open>_get_range_end_mem\<close> calls
  \<^verbatim>\<open>end\<close>: the "End" entries of \<open>SPECIAL_CHANS\<close>. The test is made at line 260,
  after the up-front reads and the conversions of lines 227-257. So: for every response
  of at least 29 characters for a programmed memory (\<^verbatim>\<open>spec[18] != '0'\<close>) with
  \<^verbatim>\<open>spec[3] == '1'\<close>, whose number \<^verbatim>\<open>int(spec[4:7])\<close> is above \<open>UPPER\<close>, whose
  extended id is found, and whose frequency, mode and step fields decode,
  \<^verbatim>\<open>_parse_mem\<close> returns the fresh record with number, extended id, frequency, mode
  and tuning step set and the ten field names marked immutable; skip, tone mode, tones,
  code, duplex, offset and name stay as constructed, whatever the response holds there.
\<close>

theorem parse_mem_range_end:
  assumes len: "29 \<le> length spec0"
      and sub: "('' '' @ spec0) ! 3 = CHR ''1''"
      and flag: "('' '' @ spec0) ! 18 \<noteq> CHR ''0''"
      and num: "py_int (py_slice ('' '' @ spec0) 4 7) = Inr n"
      and ext: "UPPER < n"
      and mid: "index_to_memid d (extd_mnum n True) = Inr memid"
      and frq: "py_int (py_slice ('' '' @ spec0) 7 18) = Inr f"
      and mdi: "py_int [('' '' @ spec0) ! 18] = Inr i5"
      and mdv: "py_dict_get MODES i5 = Inr md"
      and sti: "py_int (py_slice ('' '' @ spec0) 39 41) = Inr i14"
      and stv: "py_getitem (if md \<in> {''AM'', ''FM''} then FM_STEPS else SSB_STEPS) i14 = Inr st"
  shows "parse_mem d spec0 =
           Inr ((new_Memory d)\<lparr>number := extd_mnum n True, extd_number := memid,
                                freq := f, mode := md, tuning_step := st,
                                immutable := IMMUTABLE\<rparr>)"
proof -
  have hd: "spec0 ! 3 # py_slice (CHR '' '' # spec0) 5 7 = py_slice (CHR '' '' # spec0) 4 7"
    using len py_slice_Cons [of 4 7 "CHR '' '' # spec0"] by simp
  show ?thesis
    using assms extd_mnum_above [OF ext, of True]
    by (cases "md \<in> {''AM'', ''FM''}")
       (simp_all add: parse_mem_def parse_mnum_def range_sub_def py_index_def Let_def hd)
qed

theorem parse_mem_range_end_witness:
  "parse_mem example_deps ''MR129000014205000201080800000000000000000ABC''
     = Inr (blank_memory\<lparr>number := 291, extd_number := ''290 End'', freq := 14205000,
                           mode := ''USB'', tuning_step := 1, immutable := IMMUTABLE\<rparr>)"
  using parse_mem_range_end [of "''MR129000014205000201080800000000000000000ABC''"
          290 example_deps "''290 End''" 14205000 2 "''USB''" 0 1]
  by (simp add: eval_defs)

text \<open>
  C6 as stated fails: logical index 290 is the entry "290 Start" and is read with
  sub-flag 0; its programmed response is decoded in full (tone mode, tones, name) and
  nothing is marked immutable.
\<close>

theorem parse_mem_range_start_counterexample:
  "get_range_end_mem 290 = (0, 290)
   \<and> SPECIAL_CHANS ! nat (290 - UPPER - 1) = ''290 Start''
   \<and> parse_mem example_deps ''MR029000014205000201080800000000000000000ABC''
     = Inr \<lparr>number = 290, extd_number = ''290 Start'', empty = False, freq = 14205000,
            mode = ''USB'', tuning_step = 1, skip = [], tmode = ''Tone'', rtone = 88.5,
            ctone = 88.5, dtcs = 23, duplex = [], offset = 0, name = ''ABC'',
            immutable = []\<rparr>"
  by (simp add: eval_defs get_range_end_mem_def int_half_def)

text \<open>
  C10. \<^verbatim>\<open>_parse_split\<close>: when the split response carries the frequency \<open>f\<close> in
  \<^verbatim>\<open>spec[7:18]\<close>, the record comes back with duplex \<^verbatim>\<open>"split"\<close> and offset \<open>f\<close>
  if \<open>f\<close> differs from the record's frequency, and unchanged if it is equal; in both
  cases the result differs from the given record in no field other than duplex and
  offset.
\<close>

theorem parse_split_frame:
  assumes "py_int (py_slice ('' '' @ spec0) 7 18) = Inr f"
  shows "parse_split mem spec0
           = Inr (if freq mem \<noteq> f then mem\<lparr>duplex := ''split'', offset := f\<rparr> else mem)
         \<and> (\<forall>m'. parse_split mem spec0 = Inr m' \<longrightarrow>
               m'\<lparr>duplex := duplex mem, offset := offset mem\<rparr> = mem)"
  using assms by (simp add: parse_split_def Let_def)

theorem parse_split_frame_witness:
  "parse_split (blank_memory\<lparr>freq := 14205000\<rparr>) ''MR100500014210000201080800000000000000000TEST''
     = Inr (blank_memory\<lparr>freq := 14205000, duplex := ''split'', offset := 14210000\<rparr>)
   \<and> parse_split (blank_memory\<lparr>freq := 14205000\<rparr>) ''MR100500014205000201080800000000000000000TEST''
     = Inr (blank_memory\<lparr>freq := 14205000\<rparr>)"
proof -
  have a: "parse_split (blank_memory\<lparr>freq := 14205000\<rparr>) ''MR100500014210000201080800000000000000000TEST''
     = Inr (blank_memory\<lparr>freq := 14205000, duplex := ''split'', offset := 14210000\<rparr>)"
    using parse_split_frame [of "''MR100500014210000201080800000000000000000TEST''" 14210000
            "blank_memory\<lparr>freq := 14205000\<rparr>"]
    by (simp add: eval_defs)
  have b: "parse_split (blank_memory\<lparr>freq := 14205000\<rparr>) ''MR100500014205000201080800000000000000000TEST''
     = Inr (blank_memory\<lparr>freq := 14205000\<rparr>)"
    using parse_split_frame [of "''MR100500014205000201080800000000000000000TEST''" 14205000
            "blank_memory\<lparr>freq := 14205000\<rparr>"]
    by (simp add: eval_defs)
  show ?thesis using a b by blast
qed


text \<open>
  C4. \<^verbatim>\<open>_make_mem_spec\<close>: when the tone mode is empty, the spec does not depend on
  the stored rtone, ctone and dtcs values, and its tone fields are \<^verbatim>\<open>"00"\<close>,
  \<^verbatim>\<open>"00"\<close> and \<^verbatim>\<open>"000"\<close>; when the tone mode is not empty, rtone and ctone are
  rendered as their position in the tone table plus one (two digits) and dtcs as its
  position in the code table (three digits).
\<close>

theorem tone_fields_by_tmode:
  "(tmode mem = '''' \<longrightarrow>
      make_mem_spec d memid (mem\<lparr>rtone := r, ctone := c, dtcs := x\<rparr>) = make_mem_spec d memid mem)
   \<and> (\<forall>spec. make_mem_spec d memid mem = Inr spec \<longrightarrow>
        (tmode mem = '''' \<longrightarrow> spec ! 4 = ''00'' \<and> spec ! 5 = ''00'' \<and> spec ! 6 = ''000'')
      \<and> (tmode mem \<noteq> '''' \<longrightarrow>
            (\<exists>i j k. py_list_index (TONES d) (rtone mem) = Inr i
                   \<and> py_list_index (TONES d) (ctone mem) = Inr j
                   \<and> py_list_index (DTCS_CODES d) (dtcs mem) = Inr k
                   \<and> spec ! 4 = py_fmt_int 2 (int i + 1)
                   \<and> spec ! 5 = py_fmt_int 2 (int j + 1)
                   \<and> spec ! 6 = py_fmt_int 3 (int k))))"
proof -
  have a: "tmode mem = '''' \<longrightarrow>
      make_mem_spec d memid (mem\<lparr>rtone := r, ctone := c, dtcs := x\<rparr>) = make_mem_spec d memid mem"
    by (simp add: make_mem_spec_def)
  have b: "spec ! 4 = ''00'' \<and> spec ! 5 = ''00'' \<and> spec ! 6 = ''000''"
    if "make_mem_spec d memid mem = Inr spec" and "tmode mem = ''''" for spec
    using that by (auto simp: make_mem_spec_def Ebind_eq_Inr py_fmt_int_zero)
  have c: "\<exists>i j k. py_list_index (TONES d) (rtone mem) = Inr i
                   \<and> py_list_index (TONES d) (ctone mem) = Inr j
                   \<and> py_list_index (DTCS_CODES d) (dtcs mem) = Inr k
                   \<and> spec ! 4 = py_fmt_int 2 (int i + 1)
                   \<and> spec ! 5 = py_fmt_int 2 (int j + 1)
                   \<and> spec ! 6 = py_fmt_int 3 (int k)"
    if "make_mem_spec d memid mem = Inr spec" and "tmode mem \<noteq> ''''" for spec
    using that by (auto simp: make_mem_spec_def Ebind_eq_Inr)
  show ?thesis using a b c by blast
qed

theorem tone_fields_by_tmode_witness:
  "make_mem_spec example_deps ''005'' (example_memory\<lparr>tmode := '''', rtone := 123, dtcs := 777\<rparr>)
     = Inr [''00014205000'', ''2'', ''0'', ''0'', ''00'', ''00'', ''000'', ''0'', ''0'',
            ''000000000'', ''00'', ''0'', ''TEST'']
   \<and> make_mem_spec example_deps ''005'' (example_memory\<lparr>dtcs := 26\<rparr>)
     = Inr [''00014205000'', ''2'', ''0'', ''1'', ''08'', ''08'', ''002'', ''0'', ''0'',
            ''000000000'', ''00'', ''0'', ''TEST'']"
proof -
  have a: "make_mem_spec example_deps ''005'' (example_memory\<lparr>tmode := '''', rtone := 123, dtcs := 777\<rparr>)
     = Inr [''00014205000'', ''2'', ''0'', ''0'', ''00'', ''00'', ''000'', ''0'', ''0'',
            ''000000000'', ''00'', ''0'', ''TEST'']"
    by (simp add: enc_defs fmt_eval)
  have b: "make_mem_spec example_deps ''005'' (example_memory\<lparr>dtcs := 26\<rparr>)
     = Inr [''00014205000'', ''2'', ''0'', ''1'', ''08'', ''08'', ''002'', ''0'', ''0'',
            ''000000000'', ''00'', ''0'', ''TEST'']"
    by (simp add: enc_defs fmt_eval)
  show ?thesis
    using a b
      tone_fields_by_tmode [of "example_memory\<lparr>tmode := '''', rtone := 123, dtcs := 777\<rparr>"
                               example_deps "''005''"]
      tone_fields_by_tmode [of "example_memory\<lparr>dtcs := 26\<rparr>" example_deps "''005''"]
    by blast
qed

text \<open>
  C9. A channel record with duplex \<^verbatim>\<open>"off"\<close>, a value outside \<^verbatim>\<open>""\<close>, \<^verbatim>\<open>"+"\<close>,
  \<^verbatim>\<open>"-"\<close>, \<^verbatim>\<open>"="\<close> and \<^verbatim>\<open>"split"\<close>: both builders reach the logging call of the
  last branch, and since the name \<^verbatim>\<open>LOG\<close> is unbound they raise NameError. No spec
  is produced, and no log record is written.
\<close>

theorem unsupported_duplex_raises_NameError:
  "make_mem_spec example_deps ''005'' (example_memory\<lparr>duplex := ''off''\<rparr>)
     = Inl (NameError ''LOG'')
   \<and> make_split_spec example_deps ''005'' (example_memory\<lparr>duplex := ''off''\<rparr>)
     = Inl (NameError ''LOG'')"
  by (simp add: enc_defs fmt_eval)


text \<open>
  C3. The two step tables are as listed. \<^verbatim>\<open>_make_mem_spec\<close>: whenever it returns a
  spec, the step field is the two-digit position of the record's tuning step in
  \<open>FM_STEPS\<close> if the record's mode is AM or FM and in \<open>SSB_STEPS\<close> otherwise.
  \<^verbatim>\<open>_parse_mem\<close>: whenever it returns a programmed memory, the mode of the result is
  the table entry for the mode digit \<^verbatim>\<open>spec[18]\<close>, and the tuning step of the result
  is the entry at \<^verbatim>\<open>int(spec[39:41])\<close> of \<open>FM_STEPS\<close> if that decoded mode is AM or
  FM and of \<open>SSB_STEPS\<close> otherwise.
\<close>

theorem tuning_step_table_by_mode:
  "FM_STEPS = [5.0, 6.25, 10.0, 12.5, 15.0, 20.0, 25.0, 30.0, 50.0, 100.0]
   \<and> SSB_STEPS = [1, 2.5, 5, 10]
   \<and> (\<forall>spec. make_mem_spec d memid mem = Inr spec \<longrightarrow>
         (\<exists>k. py_list_index (if mode mem \<in> {''AM'', ''FM''} then FM_STEPS else SSB_STEPS)
                 (tuning_step mem) = Inr k
              \<and> spec ! 10 = py_fmt_int 2 (int k)))
   \<and> (\<forall>m. parse_mem d spec0 = Inr m \<longrightarrow> ('' '' @ spec0) ! 18 \<noteq> CHR ''0'' \<longrightarrow>
         (\<exists>i5 i14. py_int [('' '' @ spec0) ! 18] = Inr i5
              \<and> py_dict_get MODES i5 = Inr (mode m)
              \<and> py_int (py_slice ('' '' @ spec0) 39 41) = Inr i14
              \<and> py_getitem (if mode m \<in> {''AM'', ''FM''} then FM_STEPS else SSB_STEPS) i14
                    = Inr (tuning_step m)))"
proof -
  have tabs: "FM_STEPS = [5.0, 6.25, 10.0, 12.5, 15.0, 20.0, 25.0, 30.0, 50.0, 100.0]
              \<and> SSB_STEPS = [1, 2.5, 5, 10]"
    by (simp add: FM_STEPS_def SSB_STEPS_def)
  have enc: "\<exists>k. py_list_index (if mode mem \<in> {''AM'', ''FM''} then FM_STEPS else SSB_STEPS)
                 (tuning_step mem) = Inr k
              \<and> spec ! 10 = py_fmt_int 2 (int k)"
    if "make_mem_spec d memid mem = Inr spec" for spec
    using that by (auto simp: make_mem_spec_def Ebind_eq_Inr)
  have dec: "\<exists>i5 i14. py_int [('' '' @ spec0) ! 18] = Inr i5
              \<and> py_dict_get MODES i5 = Inr (mode m)
              \<and> py_int (py_slice ('' '' @ spec0) 39 41) = Inr i14
              \<and> py_getitem (if mode m \<in> {''AM'', ''FM''} then FM_STEPS else SSB_STEPS) i14
                    = Inr (tuning_step m)"
    if "parse_mem d spec0 = Inr m" and "('' '' @ spec0) ! 18 \<noteq> CHR ''0''" for m
    using parse_mem_programmed [of d spec0 m] that by simp
  show ?thesis
    using tabs enc dec by blast
qed

theorem tuning_step_table_by_mode_witness:
  "make_mem_spec example_deps ''005'' (example_memory\<lparr>mode := ''FM'', tuning_step := 12.5\<rparr>)
     = Inr [''00014205000'', ''4'', ''0'', ''1'', ''08'', ''08'', ''000'', ''0'', ''0'',
            ''000000000'', ''03'', ''0'', ''TEST'']
   \<and> make_mem_spec example_deps ''005'' (example_memory\<lparr>tuning_step := 10\<rparr>)
     = Inr [''00014205000'', ''2'', ''0'', ''1'', ''08'', ''08'', ''000'', ''0'', ''0'',
            ''000000000'', ''03'', ''0'', ''TEST'']
   \<and> parse_mem example_deps ''MR000500014205000401080800000000000000030TEST''
     = Inr (example_memory\<lparr>mode := ''FM'', tuning_step := 12.5\<rparr>)
   \<and> parse_mem example_deps ''MR000500014205000201080800000000000000030TEST''
     = Inr (example_memory\<lparr>tuning_step := 10\<rparr>)"
proof -
  have a: "make_mem_spec example_deps ''005'' (example_memory\<lparr>mode := ''FM'', tuning_step := 12.5\<rparr>)
     = Inr [''00014205000'', ''4'', ''0'', ''1'', ''08'', ''08'', ''000'', ''0'', ''0'',
            ''000000000'', ''03'', ''0'', ''TEST'']"
    by (simp add: enc_defs fmt_eval)
  have b: "make_mem_spec example_deps ''005'' (example_memory\<lparr>tuning_step := 10\<rparr>)
     = Inr [''00014205000'', ''2'', ''0'', ''1'', ''08'', ''08'', ''000'', ''0'', ''0'',
            ''000000000'', ''03'', ''0'', ''TEST'']"
    by (simp add: enc_defs fmt_eval)
  have c: "parse_mem example_deps ''MR000500014205000401080800000000000000030TEST''
     = Inr (example_memory\<lparr>mode := ''FM'', tuning_step := 12.5\<rparr>)"
    by (simp add: eval_defs example_memory_def)
  have e: "parse_mem example_deps ''MR000500014205000201080800000000000000030TEST''
     = Inr (example_memory\<lparr>tuning_step := 10\<rparr>)"
    by (simp add: eval_defs example_memory_def)
  show ?thesis
    using a b c e
      tuning_step_table_by_mode [of example_deps "''005''"
        "example_memory\<lparr>mode := ''FM'', tuning_step := 12.5\<rparr>"
        "''MR000500014205000401080800000000000000030TEST''"]
    by blast
qed


text \<open>
  C2 (as amended). For every channel record with duplex \<^verbatim>\<open>""\<close>, \<^verbatim>\<open>"+"\<close> or
  \<^verbatim>\<open>"-"\<close>, a tone mode among Tone, TSQL and DTCS, a mode of the mode table, a tuning
  step of the step table of that mode, rtone and ctone in the tone table, dtcs in the
  code table, skip \<^verbatim>\<open>""\<close> or \<^verbatim>\<open>"S"\<close>, a name of at most 7 characters, and a
  frequency and an offset that \<^verbatim>\<open>%011i\<close> and \<^verbatim>\<open>%09i\<close> render in exactly 11 and 9
  characters, written to a memory whose three-character id reads as a number up to
  \<open>UPPER\<close> (with tables of fewer than 100 tones and at most 1000 codes):
  \<^verbatim>\<open>_make_mem_spec\<close> returns a spec, and \<^verbatim>\<open>_parse_mem\<close> on the response
  \<^verbatim>\<open>"MR0" + memid + "".join(spec)\<close> returns a record that agrees with the given one
  on frequency, mode, tuning step, tone mode, rtone, ctone, dtcs, duplex, offset, skip
  and name, and carries the memory number.
\<close>

theorem make_parse_roundtrip:
  assumes memid: "length memid = 3" "py_int memid = Inr n" "n \<le> UPPER"
      and frq: "length (py_fmt_int 11 (freq mem)) = 11"
      and ofs: "length (py_fmt_int 9 (offset mem)) = 9"
      and md: "mode mem \<in> snd ` set MODES"
      and stp: "tuning_step mem \<in> set (if mode mem \<in> {''AM'', ''FM''} then FM_STEPS else SSB_STEPS)"
      and tm: "tmode mem \<in> {''Tone'', ''TSQL'', ''DTCS''}"
      and rt: "rtone mem \<in> set (TONES d)"
      and ct: "ctone mem \<in> set (TONES d)"
      and tl: "length (TONES d) < 100"
      and dc: "dtcs mem \<in> set (DTCS_CODES d)"
      and dl: "length (DTCS_CODES d) \<le> 1000"
      and dup: "duplex mem \<in> {'''', ''+'', ''-''}"
      and sk: "skip mem \<in> {'''', ''S''}"
      and nm: "length (name mem) \<le> 7"
  shows "\<exists>spec m. make_mem_spec d memid mem = Inr spec
           \<and> parse_mem d (''MR0'' @ memid @ concat spec) = Inr m
           \<and> number m = n \<and> freq m = freq mem \<and> mode m = mode mem
           \<and> tuning_step m = tuning_step mem \<and> tmode m = tmode mem
           \<and> rtone m = rtone mem \<and> ctone m = ctone mem \<and> dtcs m = dtcs mem
           \<and> duplex m = duplex mem \<and> offset m = offset mem \<and> skip m = skip mem
           \<and> name m = name mem"
proof -
  txt \<open>the table positions the encoder finds\<close>
  obtain ks where ks: "py_list_index (if mode mem \<in> {''AM'', ''FM''} then FM_STEPS else SSB_STEPS)
                         (tuning_step mem) = Inr ks"
    using py_list_index_mem [OF stp] by (elim exE)
  have ks_enc: "(if mode mem \<in> {''AM'', ''FM''} then py_list_index FM_STEPS (tuning_step mem)
                 else py_list_index SSB_STEPS (tuning_step mem)) = Inr ks"
    using ks by (cases "mode mem \<in> {''AM'', ''FM''}") simp_all
  have ks_dec: "(if mode mem \<in> {''AM'', ''FM''} then py_getitem FM_STEPS (int ks)
                 else py_getitem SSB_STEPS (int ks)) = Inr (tuning_step mem)"
    using py_getitem_index [OF ks] by (cases "mode mem \<in> {''AM'', ''FM''}") simp_all
  have enc_fm: "py_list_index FM_STEPS (tuning_step mem) = Inr ks"
      and dec_fm: "py_getitem FM_STEPS (int ks) = Inr (tuning_step mem)"
    if "mode mem = ''AM'' \<or> mode mem = ''FM''"
    using that ks_enc ks_dec by auto
  have enc_ssb: "py_list_index SSB_STEPS (tuning_step mem) = Inr ks"
      and dec_ssb: "py_getitem SSB_STEPS (int ks) = Inr (tuning_step mem)"
    if "mode mem \<noteq> ''AM''" and "mode mem \<noteq> ''FM''"
    using that ks_enc ks_dec by auto
  have ks_lt: "int ks < 10 ^ 2"
    using py_list_index_nth [OF ks]
    by (cases "mode mem \<in> {''AM'', ''FM''}") (simp_all add: FM_STEPS_def SSB_STEPS_def)
  obtain kr where kr: "py_list_index (TONES d) (rtone mem) = Inr kr"
    using py_list_index_mem [OF rt] by (elim exE)
  obtain kc where kc: "py_list_index (TONES d) (ctone mem) = Inr kc"
    using py_list_index_mem [OF ct] by (elim exE)
  obtain kd where kd: "py_list_index (DTCS_CODES d) (dtcs mem) = Inr kd"
    using py_list_index_mem [OF dc] by (elim exE)
  have kr_lt: "int kr + 1 < 10 ^ 2" and kc_lt: "int kc + 1 < 10 ^ 2" and kd_lt: "int kd < 10 ^ 3"
    using py_list_index_nth [OF kr] py_list_index_nth [OF kc] py_list_index_nth [OF kd] tl dl
    by simp_all
  obtain kt where kt: "py_list_index TMODES (tmode mem) = Inr kt"
    using tm py_list_index_mem [of "tmode mem" TMODES] by (auto simp: TMODES_def)
  have kt_lt: "int kt < 10"
    using py_list_index_nth [OF kt] by (simp add: TMODES_def)
  have tm_ne: "tmode mem \<noteq> ''''"
    using tm by auto
  obtain km where km: "get_dict_rev MODES (mode mem) = Inr km" "1 \<le> km" "km < 10"
      "py_dict_get MODES km = Inr (mode mem)"
    using modes_rev [OF md] by (elim exE conjE)
  obtain kdu where kdu: "get_dict_rev DUPLEX (duplex mem) = Inr kdu" "0 \<le> kdu" "kdu < 10"
      "py_dict_get DUPLEX kdu = Inr (duplex mem)"
    using duplex_rev [OF dup] by (elim exE conjE)
  have dup_in: "py_str_in (duplex mem) '' +-''"
    using dup by (auto simp: py_str_in_duplex)
  txt \<open>the fields of the spec\<close>
  define F where "F = py_fmt_int 11 (freq mem)"
  define M where "M = py_fmt_int 0 km"
  define S where "S = py_fmt_int 0 (if skip mem = ''S'' then 1 else 0)"
  define T where "T = py_fmt_int 0 (int kt)"
  define R where "R = py_fmt_int 2 (int kr + 1)"
  define C where "C = py_fmt_int 2 (int kc + 1)"
  define D where "D = py_fmt_int 3 (int kd)"
  define DU where "DU = py_fmt_int 0 kdu"
  define O2 where "O2 = py_fmt_int 9 (offset mem)"
  define ST where "ST = py_fmt_int 2 (int ks)"
  have spec: "make_mem_spec d memid mem
                = Inr [F, M, S, T, R, C, D, ''0'', DU, O2, ST, ''0'', name mem]"
    by (simp add: make_mem_spec_def dup_in kdu(1) enc_fm enc_ssb tm_ne kr kc kd km(1) kt
          F_def M_def S_def T_def R_def C_def D_def DU_def O2_def ST_def)
  have len: "length F = 11" "length M = 1" "length S = 1" "length T = 1" "length R = 2"
      "length C = 2" "length D = 3" "length DU = 1" "length O2 = 9" "length ST = 2"
    using frq ofs km kdu kt_lt ks_lt kr_lt kc_lt kd_lt
    by (simp_all add: F_def M_def S_def T_def R_def C_def D_def DU_def O2_def ST_def
          py_fmt_int_digit length_py_fmt_int)
  have val: "py_int F = Inr (freq mem)" "py_int M = Inr km"
      "py_int S = Inr (if skip mem = ''S'' then 1 else 0)" "py_int T = Inr (int kt)"
      "py_int R = Inr (int kr + 1)" "py_int C = Inr (int kc + 1)" "py_int D = Inr (int kd)"
      "py_int DU = Inr kdu" "py_int O2 = Inr (offset mem)" "py_int ST = Inr (int ks)"
    by (simp_all add: F_def M_def S_def T_def R_def C_def D_def DU_def O2_def ST_def
          py_int_py_fmt_int)
  have one: "[M ! 0] = M" "[S ! 0] = S" "[T ! 0] = T" "[DU ! 0] = DU"
    using len by (simp_all add: singleton_nth)
  have M_ne: "M ! 0 \<noteq> CHR ''0''"
  proof -
    have "M = [digit_char (nat km)]"
      using km by (simp add: M_def py_fmt_int_digit)
    moreover have "digit_char (nat km) \<noteq> CHR ''0''"
      using km digit_char_zero [of "nat km"] by simp
    ultimately show ?thesis by simp
  qed
  txt \<open>the response and its layout\<close>
  define s where "s = CHR ''M'' # CHR ''R'' # CHR ''0'' #
      memid @ F @ M @ S @ T @ R @ C @ D @ CHR ''0'' # DU @ O2 @ ST @ CHR ''0'' # name mem"
  have s_eq: "''MR0'' @ memid @ concat [F, M, S, T, R, C, D, ''0'', DU, O2, ST, ''0'', name mem] = s"
    by (simp add: s_def)
  note lay = response_layout [OF memid(1) len, of "CHR ''0''" "CHR ''0''" "CHR ''0''" "name mem",
      folded s_def]
  have ne: "s ! 17 \<noteq> CHR ''0''"
    using M_ne by (simp add: lay(5))
  have num: "parse_mnum d (CHR '' '' # s) (memid ! 0) (py_slice (CHR '' '' # s) 5 7) (new_Memory d)
               = Inr ((new_Memory d)\<lparr>number := n\<rparr>)"
    using memid(2,3) by (simp add: parse_mnum_def lay(3))
  have skp: "py_getitem ['''', ''S''] (if skip mem = ''S'' then 1 else 0) = Inr (skip mem)"
    using sk by (auto simp: py_getitem_def)
  have parsed: "parse_mem d s =
      Inr ((new_Memory d)\<lparr>number := n, freq := freq mem, mode := mode mem,
             tuning_step := tuning_step mem, skip := skip mem, tmode := tmode mem,
             rtone := rtone mem, ctone := ctone mem, dtcs := dtcs mem,
             duplex := duplex mem, offset := offset mem, name := name mem\<rparr>)"
    using memid(3) nm
    by (simp add: parse_mem_programmed_eq [OF lay(15) ne] num lay one val km(4) dec_fm dec_ssb
          range_sub_def parse_mem_tail_def skp py_getitem_index [OF kt]
          py_getitem_index [OF kr] py_getitem_index [OF kc] py_getitem_index [OF kd] kdu(4))
  have "parse_mem d (''MR0'' @ memid
                      @ concat [F, M, S, T, R, C, D, ''0'', DU, O2, ST, ''0'', name mem]) =
      Inr ((new_Memory d)\<lparr>number := n, freq := freq mem, mode := mode mem,
             tuning_step := tuning_step mem, skip := skip mem, tmode := tmode mem,
             rtone := rtone mem, ctone := ctone mem, dtcs := dtcs mem,
             duplex := duplex mem, offset := offset mem, name := name mem\<rparr>)"
    unfolding s_eq by (rule parsed)
  with spec show ?thesis
    by (intro exI conjI) (assumption, assumption, simp_all)
qed


theorem make_parse_roundtrip_witness:
  "\<exists>spec m. make_mem_spec example_deps ''005'' example_memory = Inr spec
      \<and> parse_mem example_deps (''MR0'' @ ''005'' @ concat spec) = Inr m
      \<and> number m = 5 \<and> freq m = 14205000 \<and> mode m = ''USB'' \<and> tuning_step m = 1
      \<and> tmode m = ''Tone'' \<and> rtone m = 88.5 \<and> ctone m = 88.5 \<and> dtcs m = 23
      \<and> duplex m = '''' \<and> offset m = 0 \<and> skip m = '''' \<and> name m = ''TEST''"
proof -
  have h1: "length ''005'' = 3" by simp
  have h2: "py_int ''005'' = Inr 5" by (simp add: eval_defs)
  have h3: "(5::int) \<le> UPPER" by (simp add: UPPER_def)
  have h4: "length (py_fmt_int 11 (freq example_memory)) = 11"
    by (simp add: example_memory_def blank_memory_def fmt_eval)
  have h5: "length (py_fmt_int 9 (offset example_memory)) = 9"
    by (simp add: example_memory_def blank_memory_def fmt_eval)
  have h6: "mode example_memory \<in> snd ` set MODES"
    by (simp add: example_memory_def blank_memory_def MODES_def)
  have h7: "tuning_step example_memory
              \<in> set (if mode example_memory \<in> {''AM'', ''FM''} then FM_STEPS else SSB_STEPS)"
    by (simp add: example_memory_def blank_memory_def SSB_STEPS_def)
  have h8: "tmode example_memory \<in> {''Tone'', ''TSQL'', ''DTCS''}"
    by (simp add: example_memory_def blank_memory_def)
  have h9: "rtone example_memory \<in> set (TONES example_deps)"
    by (simp add: example_memory_def blank_memory_def example_deps_def TONES_def)
  have h10: "ctone example_memory \<in> set (TONES example_deps)"
    by (simp add: example_memory_def blank_memory_def example_deps_def TONES_def)
  have h11: "length (TONES example_deps) < 100"
    by (simp add: example_deps_def TONES_def)
  have h12: "dtcs example_memory \<in> set (DTCS_CODES example_deps)"
    by (simp add: example_memory_def blank_memory_def example_deps_def)
  have h13: "length (DTCS_CODES example_deps) \<le> 1000"
    by (simp add: example_deps_def)
  have h14: "duplex example_memory \<in> {'''', ''+'', ''-''}"
    by (simp add: example_memory_def blank_memory_def)
  have h15: "skip example_memory \<in> {'''', ''S''}"
    by (simp add: example_memory_def blank_memory_def)
  have h16: "length (name example_memory) \<le> 7"
    by (simp add: example_memory_def blank_memory_def)
  show ?thesis
    using make_parse_roundtrip [OF h1 h2 h3 h4 h5 h6 h7 h8 h9 h10 h11 h12 h13 h14 h15 h16]
    by (simp add: example_memory_def blank_memory_def)
qed

text \<open>
  C2 as stated fails for duplex \<^verbatim>\<open>"="\<close>, which the duplex table lists under code 3:
  the value is no substring of \<^verbatim>\<open>" +-"\<close> and is not \<^verbatim>\<open>"split"\<close>, so
  \<^verbatim>\<open>_make_mem_spec\<close> takes its last branch and raises instead of returning a spec.
\<close>

theorem make_mem_spec_duplex_eq_counterexample:
  "py_dict_get DUPLEX 3 = Inr ''=''
   \<and> make_mem_spec example_deps ''005'' (example_memory\<lparr>duplex := ''=''\<rparr>)
       = Inl (NameError ''LOG'')"
  by (simp add: enc_defs fmt_eval)


end
